theory Spec2Isabelle
  imports Complex_Main "HOL-Library.Multiset"
begin

section \<open>The interpreter state the notebook runs in\<close>

text \<open>
  The notebook \<^verbatim>\<open>PodcastPreferences.ipynb\<close> uses two unrelated random generators:
  numpy's global generator (\<^verbatim>\<open>np.random\<close>), which the first cell seeds with
  \<^verbatim>\<open>np.random.seed(42)\<close>, and the generator of Python's standard \<^verbatim>\<open>random\<close>
  module, which no cell seeds and which Python initialises from operating-system
  entropy when the module is imported. The second one is modelled as a tape of raw
  draws with a cursor: the tape is the unknown outcome of that initialisation, each
  library call reads the draws it needs and moves the cursor. Printed lines are
  collected in \<open>stdout\<close>.
\<close>

datatype error = IndexError | ValueError

record world =
  np_seed :: "nat option"
  py_tape :: "nat \<Rightarrow> nat"
  py_pos :: nat
  stdout :: "string list"

definition np_random_seed :: "nat \<Rightarrow> world \<Rightarrow> world" where
  "np_random_seed k w = w\<lparr>np_seed := Some k\<rparr>"

definition print_line :: "string \<Rightarrow> world \<Rightarrow> world" where
  "print_line s w = w\<lparr>stdout := stdout w @ [s]\<rparr>"

text \<open>One raw draw of the \<^verbatim>\<open>random\<close> module, reduced to a number below \<open>n\<close>.\<close>

definition randbelow :: "nat \<Rightarrow> world \<Rightarrow> nat \<times> world" where
  "randbelow n w = (py_tape w (py_pos w) mod n, w\<lparr>py_pos := Suc (py_pos w)\<rparr>)"

text \<open>
  \<^verbatim>\<open>random.choices(population)[0]\<close>: one element of the population, at an index
  decided by one draw; indexing an empty population raises \<^verbatim>\<open>IndexError\<close>.
\<close>

definition random_choices_first :: "'a list \<Rightarrow> world \<Rightarrow> (error + 'a) \<times> world" where
  "random_choices_first population w =
     (let (k, w') = randbelow (length population) w
      in if population = [] then (Inl IndexError, w') else (Inr (population ! k), w'))"

text \<open>
  \<^verbatim>\<open>random.sample(range(n), 2)\<close>: two distinct numbers below \<open>n\<close>, in the order
  drawn; \<^verbatim>\<open>ValueError\<close> when the sample is larger than the population. The second
  number follows the library's pool selection (the first pick's slot is refilled with
  the last element of the pool before the second pick), which CPython uses for
  populations of at most 21 elements. For larger ones it draws the second number below
  \<open>n\<close> and redraws on a repeat, so that there the pair a given tape yields, and the
  number of draws read, differ from this definition. What both have in common, and all
  that is used of the library: the result is an ordered pair of two different numbers
  below \<open>n\<close>, and every such pair can result.
\<close>

definition random_sample2 :: "nat \<Rightarrow> world \<Rightarrow> (error + nat \<times> nat) \<times> world" where
  "random_sample2 n w =
     (if n < 2 then (Inl ValueError, w)
      else let (i, w1) = randbelow n w;
               (j, w2) = randbelow (n - 1) w1
           in (Inr (i, if j = i then n - 1 else j), w2))"

section \<open>The dissimilar-pair sampler\<close>

text \<open>\<^verbatim>\<open>chosen_person[ix]\<close> on a numpy row: out of range raises \<^verbatim>\<open>IndexError\<close>.\<close>

definition index_row :: "int list \<Rightarrow> nat \<Rightarrow> error + int" where
  "index_row chosen_person ix =
     (if ix < length chosen_person then Inr (chosen_person ! ix) else Inl IndexError)"

text \<open>
  The two assignments of the loop body,
  \<^verbatim>\<open>first_pod_polarity = chosen_person[first_pod_ix]\<close> and
  \<^verbatim>\<open>second_pod_polarity = chosen_person[first_pod_ix]\<close>: both read the first index.
\<close>

definition pod_polarities :: "int list \<Rightarrow> nat \<Rightarrow> nat \<Rightarrow> error + int \<times> int" where
  "pod_polarities chosen_person first_pod_ix second_pod_ix =
     (case index_row chosen_person first_pod_ix of
        Inl e \<Rightarrow> Inl e
      | Inr first_pod_polarity \<Rightarrow>
          (case index_row chosen_person first_pod_ix of
             Inl e \<Rightarrow> Inl e
           | Inr second_pod_polarity \<Rightarrow> Inr (first_pod_polarity, second_pod_polarity)))"

text \<open>The condition of the \<^verbatim>\<open>if\<close> that ends the resampling.\<close>

definition polarity_test :: "int \<Rightarrow> int \<Rightarrow> bool" where
  "polarity_test first_pod_polarity second_pod_polarity =
     (first_pod_polarity = 0 \<or> second_pod_polarity = 0
      \<or> first_pod_polarity = - second_pod_polarity)"

definition candidate_passes :: "int list \<Rightarrow> nat \<Rightarrow> nat \<Rightarrow> error + bool" where
  "candidate_passes chosen_person first_pod_ix second_pod_ix =
     (case pod_polarities chosen_person first_pod_ix second_pod_ix of
        Inl e \<Rightarrow> Inl e
      | Inr (first_pod_polarity, second_pod_polarity) \<Rightarrow>
          Inr (polarity_test first_pod_polarity second_pod_polarity))"

text \<open>
  The \<^verbatim>\<open>while resample:\<close> loop. The variable \<open>attempts\<close> is set to 0 before the
  loop and no statement of the loop assigns it, so each iteration passes it on
  unchanged. A run that never leaves the loop has the value \<open>None\<close>.
\<close>

partial_function (option) resample_loop ::
  "nat \<Rightarrow> int list \<Rightarrow> nat \<Rightarrow> world \<Rightarrow> ((error + nat \<times> nat) \<times> world) option" where
  "resample_loop num_pods chosen_person attempts w =
     (case random_sample2 num_pods w of
        (Inl e, w') \<Rightarrow> Some (Inl e, w')
      | (Inr (first_pod_ix, second_pod_ix), w') \<Rightarrow>
          (case candidate_passes chosen_person first_pod_ix second_pod_ix of
             Inl e \<Rightarrow> Some (Inl e, w')
           | Inr passes \<Rightarrow>
               if passes then Some (Inr (first_pod_ix, second_pod_ix), w')
               else if attempts > 1000
               then Some (Inr (first_pod_ix, second_pod_ix),
                      print_line ''This person either liked everything, or disliked everything.'' w')
               else resample_loop num_pods chosen_person attempts w'))"

declare resample_loop.simps [code]

text \<open>
  \<^verbatim>\<open>get_dissimilar_pair(both)\<close>. The function reads the global \<open>num_pods\<close>, here its
  first argument, chooses the person and enters the loop with \<open>attempts = 0\<close>.
\<close>

definition get_dissimilar_pair ::
  "nat \<Rightarrow> int list list \<Rightarrow> world \<Rightarrow> ((error + nat \<times> nat) \<times> world) option" where
  "get_dissimilar_pair num_pods both w =
     (case random_choices_first both w of
        (Inl e, w') \<Rightarrow> Some (Inl e, w')
      | (Inr chosen_person, w') \<Rightarrow> resample_loop num_pods chosen_person 0 w')"

section \<open>The notebook's globals and cells\<close>

text \<open>
  The globals the thresholding cell and the pair-construction cell read and write.
  \<open>normed\<close> is the row-normalised affinity matrix, one row per person and one
  column per podcast; its entries are floats, compared with the threshold exactly,
  and are modelled as reals. Every array of the notebook is an object of its own
  (\<^verbatim>\<open>astype\<close>, the comparisons, the sums and \<^verbatim>\<open>liked + disliked\<close> each build a
  new array), so no two globals alias and a record of values models them.
\<close>

record notebook =
  num_pods :: nat
  normed :: "real list list"
  threshold :: real
  liked :: "int list list"
  disliked :: "int list list"
  multiprefs_liked :: "bool list"
  multiprefs_disliked :: "bool list"
  both :: "int list list"
  contains_similar :: "bool list"
  potential_similar_pairs :: "(nat \<times> nat) list"
  unique_similar_pairs :: "(nat \<times> nat) set"
  potential_dissimilar_pairs :: "(nat \<times> nat) list"
  io :: world

subsection \<open>numpy and itertools operations\<close>

text \<open>\<^verbatim>\<open>(m > t).astype(int)\<close> and \<^verbatim>\<open>(m < t).astype(int)\<close>.\<close>

definition np_greater :: "real list list \<Rightarrow> real \<Rightarrow> int list list" where
  "np_greater m t = map (map (\<lambda>x. if x > t then 1 else 0)) m"

definition np_less :: "real list list \<Rightarrow> real \<Rightarrow> int list list" where
  "np_less m t = map (map (\<lambda>x. if x < t then 1 else 0)) m"

text \<open>\<^verbatim>\<open>m.sum(axis=1) > 1\<close>.\<close>

definition row_sums_gt1 :: "int list list \<Rightarrow> bool list" where
  "row_sums_gt1 m = map (\<lambda>row. sum_list row > 1) m"

text \<open>\<^verbatim>\<open>np.sum(mask)\<close> of a boolean array: the number of \<^verbatim>\<open>True\<close> entries.\<close>

definition np_sum_mask :: "bool list \<Rightarrow> nat" where
  "np_sum_mask flags = length (filter (\<lambda>b. b) flags)"

text \<open>\<^verbatim>\<open>m[m > 0] = -1\<close>, the in-place assignment through a boolean mask.\<close>

definition assign_positive_minus1 :: "int list list \<Rightarrow> int list list" where
  "assign_positive_minus1 m = map (map (\<lambda>d. if d > 0 then - 1 else d)) m"

text \<open>
  \<^verbatim>\<open>a + b\<close> on two integer arrays of one shape, and on two boolean arrays of one
  length (where numpy's \<^verbatim>\<open>+\<close> is the logical or).
\<close>

definition np_add :: "int list list \<Rightarrow> int list list \<Rightarrow> int list list" where
  "np_add a b = map2 (map2 (+)) a b"

definition np_add_mask :: "bool list \<Rightarrow> bool list \<Rightarrow> bool list" where
  "np_add_mask a b = map2 (\<or>) a b"

text \<open>\<^verbatim>\<open>m[mask]\<close>: the rows of \<open>m\<close> where the mask holds, in order.\<close>

definition mask_rows :: "'a list \<Rightarrow> bool list \<Rightarrow> 'a list" where
  "mask_rows m flags = map fst (filter snd (zip m flags))"

text \<open>\<^verbatim>\<open>np.where(person == v)[0]\<close>: the indices holding \<open>v\<close>, ascending.\<close>

definition np_where_eq :: "int list \<Rightarrow> int \<Rightarrow> nat list" where
  "np_where_eq person v = filter (\<lambda>i. person ! i = v) [0..<length person]"

text \<open>
  \<^verbatim>\<open>list(permutations(xs, 2))\<close>: the pairs of elements at two different positions,
  in the order of the positions.
\<close>

definition permutations2 :: "'a list \<Rightarrow> ('a \<times> 'a) list" where
  "permutations2 xs =
     concat (map (\<lambda>i. map (\<lambda>j. (xs ! i, xs ! j)) (filter (\<lambda>j. j \<noteq> i) [0..<length xs]))
                 [0..<length xs])"

text \<open>Decimal digits of a count, for the printed lines.\<close>

function str_nat :: "nat \<Rightarrow> string" where
  "str_nat n =
     (if n < 10 then [''0123456789'' ! n]
      else str_nat (n div 10) @ [''0123456789'' ! (n mod 10)])"
  by pat_completeness auto
termination
  by (relation "measure (\<lambda>n. n)") auto

subsection \<open>The seeding cell and the thresholding cell\<close>

definition seed_cell :: "notebook \<Rightarrow> notebook" where
  "seed_cell s = s\<lparr>io := np_random_seed 42 (io s)\<rparr>"

text \<open>
  The thresholding cell, with the threshold (0.17 in the source) as a parameter.
\<close>

definition threshold_cell :: "real \<Rightarrow> notebook \<Rightarrow> notebook" where
  "threshold_cell t s =
     (let s1 = s\<lparr>threshold := t\<rparr>;
          s2 = s1\<lparr>liked := np_greater (normed s1) (threshold s1)\<rparr>;
          s3 = s2\<lparr>disliked := np_less (normed s2) (- threshold s2)\<rparr>;
          s4 = s3\<lparr>multiprefs_liked := row_sums_gt1 (liked s3)\<rparr>;
          s5 = s4\<lparr>multiprefs_disliked := row_sums_gt1 (disliked s4)\<rparr>;
          s6 = s5\<lparr>io := print_line
                 (''Number of people with 2 or more liked podcasts: ''
                    @ str_nat (np_sum_mask (multiprefs_liked s5))) (io s5)\<rparr>
      in s6\<lparr>io := print_line
                 (''Number of people with 2 or more disliked podcasts: ''
                    @ str_nat (np_sum_mask (multiprefs_disliked s6))) (io s6)\<rparr>)"

subsection \<open>The pair-construction cell\<close>

text \<open>
  One pass of \<^verbatim>\<open>for person in rows: idx = np.where(person == v)[0];
  potential_similar_pairs += list(permutations(idx, 2))\<close>.
\<close>

fun similar_loop :: "int list list \<Rightarrow> int \<Rightarrow> (nat \<times> nat) list \<Rightarrow> (nat \<times> nat) list" where
  "similar_loop [] v acc = acc"
| "similar_loop (person # rest) v acc =
     similar_loop rest v (acc @ permutations2 (np_where_eq person v))"

text \<open>
  The statements of the cell up to \<^verbatim>\<open>potential_dissimilar_pairs = []\<close>; none of
  them can fail.
\<close>

definition pair_cell_similar :: "notebook \<Rightarrow> notebook" where
  "pair_cell_similar s =
     (let s1 = s\<lparr>disliked := assign_positive_minus1 (disliked s)\<rparr>;
          s2 = s1\<lparr>both := np_add (liked s1) (disliked s1)\<rparr>;
          s3 = s2\<lparr>contains_similar :=
                    np_add_mask (multiprefs_liked s2) (multiprefs_disliked s2)\<rparr>;
          s4 = s3\<lparr>potential_similar_pairs := []\<rparr>;
          s5 = s4\<lparr>potential_similar_pairs :=
                    similar_loop (mask_rows (both s4) (multiprefs_liked s4)) 1
                      (potential_similar_pairs s4)\<rparr>;
          s6 = s5\<lparr>potential_similar_pairs :=
                    similar_loop (mask_rows (both s5) (multiprefs_disliked s5)) (- 1)
                      (potential_similar_pairs s5)\<rparr>;
          s7 = s6\<lparr>unique_similar_pairs := set (potential_similar_pairs s6)\<rparr>
      in s7\<lparr>potential_dissimilar_pairs := []\<rparr>)"

text \<open>
  \<^verbatim>\<open>for i in range(k): potential_dissimilar_pairs.append(get_dissimilar_pair(both))\<close>.
  The result is \<open>None\<close> when a call never returns; otherwise it holds the exception
  raised, if any, the list as far as it was built, and the interpreter state.
\<close>

fun dissimilar_loop ::
  "nat \<Rightarrow> nat \<Rightarrow> int list list \<Rightarrow> (nat \<times> nat) list \<Rightarrow> world
     \<Rightarrow> (error option \<times> (nat \<times> nat) list \<times> world) option" where
  "dissimilar_loop 0 n m acc w = Some (None, acc, w)"
| "dissimilar_loop (Suc k) n m acc w =
     (case get_dissimilar_pair n m w of
        None \<Rightarrow> None
      | Some (Inl e, w') \<Rightarrow> Some (Some e, acc, w')
      | Some (Inr dissimilar_pair, w') \<Rightarrow> dissimilar_loop k n m (acc @ [dissimilar_pair]) w')"

definition pair_cell :: "notebook \<Rightarrow> (error option \<times> notebook) option" where
  "pair_cell s =
     (let s8 = pair_cell_similar s
      in case dissimilar_loop (length (potential_similar_pairs s8)) (num_pods s8) (both s8)
                (potential_dissimilar_pairs s8) (io s8) of
           None \<Rightarrow> None
         | Some (exc, pairs, w') \<Rightarrow>
             Some (exc, s8\<lparr>potential_dissimilar_pairs := pairs, io := w'\<rparr>))"

subsection \<open>A run of the notebook\<close>

text \<open>
  The state before the first cell: no global is assigned yet (the empty values stand
  for that; each cell assigns a global before it reads it), nothing is printed, numpy's
  generator is unseeded, and the \<^verbatim>\<open>random\<close> module holds the tape its import drew.
\<close>

definition initial_world :: "(nat \<Rightarrow> nat) \<Rightarrow> world" where
  "initial_world tape = \<lparr>np_seed = None, py_tape = tape, py_pos = 0, stdout = []\<rparr>"

definition fresh_notebook :: "world \<Rightarrow> notebook" where
  "fresh_notebook w =
     \<lparr>num_pods = 0, normed = [], threshold = 0, liked = [], disliked = [],
      multiprefs_liked = [], multiprefs_disliked = [], both = [], contains_similar = [],
      potential_similar_pairs = [], unique_similar_pairs = {},
      potential_dissimilar_pairs = [], io = w\<rparr>"

text \<open>
  The data-simulation cell draws the latent vectors from numpy's seeded generator and
  the first line of the thresholding cell normalises the affinities with scikit-learn's
  \<^verbatim>\<open>normalize\<close>, which raises \<^verbatim>\<open>ValueError\<close> on a matrix with no row (no people)
  or no column (no podcasts). On any other matrix it returns the matrix \<open>m\<close> of
  normalised affinities for \<open>n\<close> podcasts, which is taken as given; neither step
  touches the \<^verbatim>\<open>random\<close> module or prints.
\<close>

definition normalize_accepts :: "nat \<Rightarrow> real list list \<Rightarrow> bool" where
  "normalize_accepts n m = (m \<noteq> [] \<and> 0 < n)"

definition simulation_result :: "nat \<Rightarrow> real list list \<Rightarrow> notebook \<Rightarrow> notebook" where
  "simulation_result n m s = s\<lparr>num_pods := n, normed := m\<rparr>"

text \<open>
  A run of the cells in order. When \<^verbatim>\<open>normalize\<close> raises, the run stops there: the
  globals of the later statements are never assigned.
\<close>

definition run_notebook ::
  "nat \<Rightarrow> real list list \<Rightarrow> real \<Rightarrow> world \<Rightarrow> (error option \<times> notebook) option" where
  "run_notebook n m t w =
     (if normalize_accepts n m
      then pair_cell (threshold_cell t (simulation_result n m (seed_cell (fresh_notebook w))))
      else Some (Some ValueError, (seed_cell (fresh_notebook w))\<lparr>num_pods := n\<rparr>))"

text \<open>
  The globals at the moment the cell starts sampling dissimilar pairs, in the same run.
\<close>

definition before_sampling :: "nat \<Rightarrow> real list list \<Rightarrow> real \<Rightarrow> world \<Rightarrow> notebook" where
  "before_sampling n m t w =
     pair_cell_similar (threshold_cell t (simulation_result n m (seed_cell (fresh_notebook w))))"

text \<open>
  The polarity of a normalised affinity \<open>x\<close> at threshold \<open>t\<close>, as the sum the cell
  computes: 1 when liked, plus -1 when disliked.
\<close>

definition polarity :: "real \<Rightarrow> real \<Rightarrow> int" where
  "polarity t x = (if x > t then 1 else 0) + (if x < - t then - 1 else 0)"

section \<open>Properties of the library model\<close>

lemma random_sample2_eq:
  "2 \<le> n \<Longrightarrow> random_sample2 n w =
     (Inr (py_tape w (py_pos w) mod n,
           if py_tape w (Suc (py_pos w)) mod (n - Suc 0) = py_tape w (py_pos w) mod n
           then n - Suc 0
           else py_tape w (Suc (py_pos w)) mod (n - Suc 0)),
      w\<lparr>py_pos := Suc (Suc (py_pos w))\<rparr>)"
  by (simp add: random_sample2_def randbelow_def)

lemma random_sample2_range:
  assumes "random_sample2 n w = (Inr (i, j), w')"
  shows "i < n \<and> j < n \<and> i \<noteq> j \<and> w' = w\<lparr>py_pos := Suc (Suc (py_pos w))\<rparr>"
proof -
  from assms have n: "2 \<le> n"
    by (auto simp: random_sample2_def split: if_splits)
  define a where "a = py_tape w (py_pos w) mod n"
  define b where "b = py_tape w (Suc (py_pos w)) mod (n - Suc 0)"
  have a: "a < n" and b: "b < n - Suc 0"
    using n by (simp_all add: a_def b_def)
  have "random_sample2 n w = (Inr (a, if b = a then n - Suc 0 else b),
      w\<lparr>py_pos := Suc (Suc (py_pos w))\<rparr>)"
    unfolding a_def b_def by (rule random_sample2_eq [OF n])
  with assms have "i = a" "j = (if b = a then n - Suc 0 else b)"
    "w' = w\<lparr>py_pos := Suc (Suc (py_pos w))\<rparr>"
    by auto
  with a b show ?thesis by auto
qed

lemma random_sample2_error:
  "random_sample2 n w = (Inl e, w') \<longleftrightarrow> n < 2 \<and> e = ValueError \<and> w' = w"
  by (auto simp: random_sample2_def randbelow_def Let_def split: if_splits)

text \<open>
  Every ordered pair of two different numbers below \<open>n\<close> is a possible sample, so the
  model of \<^verbatim>\<open>random.sample\<close> excludes no outcome of the library.
\<close>

lemma random_sample2_any_pair:
  assumes "i < n" and "j < n" and "i \<noteq> j"
  shows "\<exists>tape. fst (random_sample2 n (w\<lparr>py_tape := tape\<rparr>)) = Inr (i, j)"
proof -
  from assms have n: "2 \<le> n" by simp
  let ?tape = "\<lambda>k. if k = py_pos w then i else if j = n - Suc 0 then i else j"
  have "fst (random_sample2 n (w\<lparr>py_tape := ?tape\<rparr>)) = Inr (i, j)"
    using assms by (auto simp: random_sample2_eq [OF n])
  then show ?thesis by (rule exI [of _ ?tape])
qed

section \<open>The acceptance test of the sampler\<close>

text \<open>
  Claim C1. In \<^verbatim>\<open>get_dissimilar_pair\<close> both polarities of the acceptance test are
  read at the first sampled index. So for every chosen person and every candidate
  pair whose first index is a column of the person's row, the candidate passes the
  test exactly when the person's polarity for the first podcast is 0, and changing
  the person's polarity for the second podcast to any value changes nothing.
  (The entries of the rows are the polarities -1, 0 and 1, far from the bounds of
  numpy's 64-bit integers, so the negation is the exact one.)
\<close>

theorem candidate_passes_first_only:
  assumes "first_pod_ix < length chosen_person" and "first_pod_ix \<noteq> second_pod_ix"
  shows "candidate_passes chosen_person first_pod_ix second_pod_ix
           = Inr (chosen_person ! first_pod_ix = 0)
         \<and> pod_polarities chosen_person first_pod_ix second_pod_ix
           = Inr (chosen_person ! first_pod_ix, chosen_person ! first_pod_ix)
         \<and> (\<forall>v. candidate_passes (chosen_person[second_pod_ix := v]) first_pod_ix second_pod_ix
                = candidate_passes chosen_person first_pod_ix second_pod_ix)"
  using assms
  by (auto simp: candidate_passes_def pod_polarities_def index_row_def polarity_test_def)

theorem candidate_passes_first_only_witness:
  "(1::nat) < length [1, 0, - 1 :: int] \<and> (1::nat) \<noteq> 2
   \<and> candidate_passes [1, 0, - 1] 1 2 = Inr True
   \<and> candidate_passes ([1, 0, - 1][2 := 1]) 1 2 = candidate_passes [1, 0, - 1] 1 2"
  using candidate_passes_first_only [of 1 "[1, 0, - 1]" 2] by auto

section \<open>Leaving the resampling loop\<close>

text \<open>
  Since \<open>attempts\<close> stays 0, the branch \<^verbatim>\<open>elif attempts > 1000\<close> is never taken:
  the loop is left only through a candidate whose first index has polarity 0, and
  nothing is printed.
\<close>

lemmas resample_loop_induct = resample_loop.raw_induct [rotated 1, consumes 1, case_names iter]

lemma resample_loop_returns_zero:
  assumes "resample_loop n_pods chosen_person attempts w = Some r"
    and "attempts \<le> 1000" and "fst r = Inr (i, j)"
  shows "i < length chosen_person \<and> chosen_person ! i = 0 \<and> i < n_pods \<and> j < n_pods
         \<and> i \<noteq> j \<and> stdout (snd r) = stdout w"
  using assms
proof (induction n_pods chosen_person attempts w r rule: resample_loop_induct)
  case (iter loop n_pods chosen_person attempts w r)
  note att = \<open>attempts \<le> 1000\<close> and res = \<open>fst r = Inr (i, j)\<close>
  show ?case
  proof (cases "random_sample2 n_pods w")
    case (Pair res1 w1)
    show ?thesis
    proof (cases res1)
      case (Inl e)
      with iter.hyps Pair res show ?thesis by auto
    next
      case (Inr p)
      obtain a b where p: "p = (a, b)" by (cases p)
      from Pair Inr p have s: "random_sample2 n_pods w = (Inr (a, b), w1)" by simp
      note rng = random_sample2_range [OF s]
      show ?thesis
      proof (cases "candidate_passes chosen_person a b")
        case (Inl e)
        with iter.hyps s res show ?thesis by auto
      next
        case (Inr passes)
        show ?thesis
        proof (cases passes)
          case True
          with iter.hyps s Inr have r: "r = (Inr (a, b), w1)" by simp
          from Inr True have "a < length chosen_person \<and> chosen_person ! a = 0"
            by (auto simp: candidate_passes_def pod_polarities_def index_row_def
                polarity_test_def split: if_splits)
          with r rng res show ?thesis by auto
        next
          case False
          with iter.hyps att s Inr have "loop n_pods chosen_person attempts w1 = Some r"
            by simp
          from iter.IH [OF this att res] rng show ?thesis by simp
        qed
      qed
    qed
  qed
qed

lemma resample_loop_no_return:
  assumes "resample_loop n_pods chosen_person attempts w = Some r"
    and "2 \<le> n_pods" and "attempts \<le> 1000"
    and "\<forall>i<n_pods. i < length chosen_person \<and> chosen_person ! i \<noteq> 0"
  shows False
  using assms
proof (induction n_pods chosen_person attempts w r rule: resample_loop_induct)
  case (iter loop n_pods chosen_person attempts w r)
  note n = \<open>2 \<le> n_pods\<close> and att = \<open>attempts \<le> 1000\<close>
    and nz = \<open>\<forall>i<n_pods. i < length chosen_person \<and> chosen_person ! i \<noteq> 0\<close>
  obtain a b w1 where s: "random_sample2 n_pods w = (Inr (a, b), w1)"
    using random_sample2_eq [OF n, of w] by blast
  from random_sample2_range [OF s] have "a < n_pods" by simp
  with nz have "a < length chosen_person" "chosen_person ! a \<noteq> 0" by auto
  then have "candidate_passes chosen_person a b = Inr False"
    by (simp add: candidate_passes_def pod_polarities_def index_row_def polarity_test_def)
  with iter.hyps att s have "loop n_pods chosen_person attempts w1 = Some r" by simp
  then show ?case using n att nz by (rule iter.IH)
qed

lemma resample_loop_diverges:
  assumes "2 \<le> n_pods" and "attempts \<le> 1000"
    and "\<forall>i<n_pods. i < length chosen_person \<and> chosen_person ! i \<noteq> 0"
  shows "resample_loop n_pods chosen_person attempts w = None"
  using resample_loop_no_return [OF _ assms]
  by (cases "resample_loop n_pods chosen_person attempts w") auto

section \<open>The cells, field by field\<close>

lemma threshold_cell_fields:
  "liked (threshold_cell t s) = np_greater (normed s) t"
  "disliked (threshold_cell t s) = np_less (normed s) (- t)"
  "multiprefs_liked (threshold_cell t s) = row_sums_gt1 (np_greater (normed s) t)"
  "multiprefs_disliked (threshold_cell t s) = row_sums_gt1 (np_less (normed s) (- t))"
  "normed (threshold_cell t s) = normed s"
  "num_pods (threshold_cell t s) = num_pods s"
  "threshold (threshold_cell t s) = t"
  by (simp_all add: threshold_cell_def Let_def)

lemma pair_cell_similar_fields:
  "disliked (pair_cell_similar s) = assign_positive_minus1 (disliked s)"
  "both (pair_cell_similar s) = np_add (liked s) (assign_positive_minus1 (disliked s))"
  "liked (pair_cell_similar s) = liked s"
  "normed (pair_cell_similar s) = normed s"
  "multiprefs_liked (pair_cell_similar s) = multiprefs_liked s"
  "multiprefs_disliked (pair_cell_similar s) = multiprefs_disliked s"
  "num_pods (pair_cell_similar s) = num_pods s"
  "threshold (pair_cell_similar s) = threshold s"
  "io (pair_cell_similar s) = io s"
  "potential_dissimilar_pairs (pair_cell_similar s) = []"
  "contains_similar (pair_cell_similar s) = np_add_mask (multiprefs_liked s) (multiprefs_disliked s)"
  by (simp_all add: pair_cell_similar_def Let_def)

lemma pair_cell_similar_pairs:
  "potential_similar_pairs (pair_cell_similar s) =
     similar_loop (mask_rows (both (pair_cell_similar s)) (multiprefs_disliked s)) (- 1)
       (similar_loop (mask_rows (both (pair_cell_similar s)) (multiprefs_liked s)) 1 [])"
  by (simp add: pair_cell_similar_def Let_def)

lemma polarity_row:
  "map2 (+) (map (\<lambda>x. if x > t then 1 else 0) r)
     (map (\<lambda>d. if d > 0 then - 1 else d) (map (\<lambda>x. if x < - t then 1 else (0::int)) r))
   = map (polarity t) r"
  by (induction r) (simp_all add: polarity_def)

lemma polarity_matrix:
  "np_add (np_greater m t) (assign_positive_minus1 (np_less m (- t))) = map (map (polarity t)) m"
  unfolding np_add_def np_greater_def np_less_def assign_positive_minus1_def
  by (induction m) (simp_all add: polarity_row del: map_map)

lemma both_after_threshold:
  "both (pair_cell_similar (threshold_cell t s)) = map (map (polarity t)) (normed s)"
  by (simp add: pair_cell_similar_fields threshold_cell_fields polarity_matrix)

lemma polarity_cases: "polarity t x = - 1 \<or> polarity t x = 0 \<or> polarity t x = 1"
  by (simp add: polarity_def)

lemma polarity_pos: "0 < t \<Longrightarrow> polarity t x = (if x > t then 1 else if x < - t then - 1 else 0)"
  by (simp add: polarity_def)

lemma polarity_eq_1: "polarity t x = 1 \<longleftrightarrow> x > t \<and> \<not> x < - t"
  by (simp add: polarity_def)

lemma polarity_eq_m1: "polarity t x = - 1 \<longleftrightarrow> x < - t \<and> \<not> x > t"
  by (simp add: polarity_def)

text \<open>
  Claim C8. For every threshold \<open>t > 0\<close> and every (person, podcast) cell, \<open>liked\<close>
  and \<open>disliked\<close> are never both 1 after the thresholding cell; and every entry of
  the polarity matrix \<open>both\<close> that the pair-construction cell builds is -1, 0 or 1:
  it is 1 where the normalised affinity is above \<open>t\<close>, -1 where it is below \<open>-t\<close>,
  and 0 elsewhere.
\<close>

theorem liked_disliked_exclusive:
  assumes "0 < t"
  shows "(\<forall>p<length (normed s). \<forall>i<length (normed s ! p).
            \<not> (liked (threshold_cell t s) ! p ! i = 1 \<and> disliked (threshold_cell t s) ! p ! i = 1))
       \<and> (\<forall>row\<in>set (both (pair_cell_similar (threshold_cell t s))). \<forall>v\<in>set row.
            v = - 1 \<or> v = 0 \<or> v = 1)
       \<and> (\<forall>p<length (normed s). \<forall>i<length (normed s ! p).
            both (pair_cell_similar (threshold_cell t s)) ! p ! i
              = (if normed s ! p ! i > t then 1 else if normed s ! p ! i < - t then - 1 else 0))"
proof (intro conjI)
  show "\<forall>p<length (normed s). \<forall>i<length (normed s ! p).
            \<not> (liked (threshold_cell t s) ! p ! i = 1 \<and> disliked (threshold_cell t s) ! p ! i = 1)"
    using assms by (auto simp: threshold_cell_fields np_greater_def np_less_def split: if_splits)
  show "\<forall>row\<in>set (both (pair_cell_similar (threshold_cell t s))). \<forall>v\<in>set row.
            v = - 1 \<or> v = 0 \<or> v = 1"
    using polarity_cases by (auto simp: both_after_threshold)
  show "\<forall>p<length (normed s). \<forall>i<length (normed s ! p).
            both (pair_cell_similar (threshold_cell t s)) ! p ! i
              = (if normed s ! p ! i > t then 1 else if normed s ! p ! i < - t then - 1 else 0)"
    using assms by (simp add: both_after_threshold polarity_pos)
qed

lemma pair_cell_result:
  assumes "pair_cell s = Some (exc, s')"
  shows "\<exists>pairs w'.
           dissimilar_loop (length (potential_similar_pairs (pair_cell_similar s))) (num_pods s)
             (both (pair_cell_similar s)) [] (io s) = Some (exc, pairs, w')
         \<and> s' = (pair_cell_similar s)\<lparr>potential_dissimilar_pairs := pairs, io := w'\<rparr>"
  using assms
  by (auto simp: pair_cell_def Let_def pair_cell_similar_fields split: option.splits prod.splits)

lemma sum_list_indicator:
  "sum_list (map (\<lambda>x. if P x then 1 else (0::int)) xs) = int (length (filter P xs))"
  by (induction xs) simp_all

lemma row_sums_gt1_np_less:
  assumes "p < length m"
  shows "row_sums_gt1 (np_less m u) ! p \<longleftrightarrow> 2 \<le> card {i. i < length (m ! p) \<and> m ! p ! i < u}"
  using assms
  by (auto simp: row_sums_gt1_def np_less_def sum_list_indicator length_filter_conv_card)

lemma row_sums_gt1_np_greater:
  assumes "p < length m"
  shows "row_sums_gt1 (np_greater m u) ! p \<longleftrightarrow> 2 \<le> card {i. i < length (m ! p) \<and> m ! p ! i > u}"
  using assms
  by (auto simp: row_sums_gt1_def np_greater_def sum_list_indicator length_filter_conv_card)

lemma assign_positive_minus1_np_less:
  "assign_positive_minus1 (np_less m u) = map (map (\<lambda>x. if x < u then - 1 else 0)) m"
  by (simp add: assign_positive_minus1_def np_less_def)

text \<open>
  Had the masks been computed after the negation, no row sum could exceed 1 and nobody
  would qualify for disliked pairs.
\<close>

lemma row_sums_gt1_after_negation:
  "row_sums_gt1 (assign_positive_minus1 (np_less m u)) = map (\<lambda>row. False) m"
proof -
  have "sum_list (map (\<lambda>x. if x < u then - 1 else (0::int)) r) \<le> 0" for r :: "real list"
    by (induction r) simp_all
  then have "\<not> 1 < sum_list (map (\<lambda>x. if x < u then - 1 else (0::int)) r)" for r :: "real list"
    by (simp add: not_less order_trans [of _ 0 1])
  then show ?thesis
    by (simp add: assign_positive_minus1_np_less row_sums_gt1_def)
qed

text \<open>
  Claim C10. Whatever way the pair-construction cell ends (normally or with an
  exception), of the globals it found it has changed only \<open>disliked\<close>: \<open>liked\<close>,
  \<open>normed\<close>, \<open>num_pods\<close>, \<open>threshold\<close> and the two masks are as the thresholding
  cell left them, \<open>disliked\<close> is its former value with every positive entry replaced
  by -1, so its entries are 0 or -1, and, the masks having been computed from the 0/1
  form, a person qualifies for disliked pairs exactly when at least 2 entries of the
  person's row of \<open>normed\<close> are below \<open>-t\<close>.
\<close>

theorem pair_cell_frame:
  assumes "pair_cell (threshold_cell t s) = Some (exc, s')"
  shows "liked s' = liked (threshold_cell t s)
       \<and> normed s' = normed s
       \<and> multiprefs_liked s' = multiprefs_liked (threshold_cell t s)
       \<and> multiprefs_disliked s' = multiprefs_disliked (threshold_cell t s)
       \<and> num_pods s' = num_pods s \<and> threshold s' = t
       \<and> disliked s' = assign_positive_minus1 (disliked (threshold_cell t s))
       \<and> (\<forall>row\<in>set (disliked s'). \<forall>d\<in>set row. d = 0 \<or> d = - 1)
       \<and> (\<forall>p<length (normed s).
             multiprefs_disliked s' ! p
               \<longleftrightarrow> 2 \<le> card {i. i < length (normed s ! p) \<and> normed s ! p ! i < - t})"
proof -
  from pair_cell_result [OF assms] obtain pairs w' where
    s': "s' = (pair_cell_similar (threshold_cell t s))\<lparr>potential_dissimilar_pairs := pairs, io := w'\<rparr>"
    by blast
  have entries: "\<forall>row\<in>set (disliked s'). \<forall>d\<in>set row. d = 0 \<or> d = - 1"
    by (auto simp: s' pair_cell_similar_fields threshold_cell_fields assign_positive_minus1_np_less)
  have qualifies: "\<forall>p<length (normed s).
             multiprefs_disliked s' ! p
               \<longleftrightarrow> 2 \<le> card {i. i < length (normed s ! p) \<and> normed s ! p ! i < - t}"
    by (simp add: s' pair_cell_similar_fields threshold_cell_fields row_sums_gt1_np_less)
  show ?thesis
    using entries qualifies by (simp add: s' pair_cell_similar_fields threshold_cell_fields)
qed

lemma dissimilar_loop_calls:
  assumes "dissimilar_loop k n m acc w = Some (None, pairs, w')"
  shows "\<exists>ws. length ws = Suc k \<and> ws ! 0 = w \<and> ws ! k = w'
            \<and> length pairs = length acc + k \<and> take (length acc) pairs = acc
            \<and> (\<forall>i<k. get_dissimilar_pair n m (ws ! i)
                         = Some (Inr (pairs ! (length acc + i)), ws ! Suc i))"
  using assms
proof (induction k arbitrary: acc w)
  case 0
  then show ?case by (intro exI [of _ "[w]"]) simp
next
  case (Suc k)
  from Suc.prems obtain p w1 where
    call: "get_dissimilar_pair n m w = Some (Inr p, w1)"
    and rest: "dissimilar_loop k n m (acc @ [p]) w1 = Some (None, pairs, w')"
    by (auto split: option.splits prod.splits sum.splits)
  from Suc.IH [OF rest] obtain ws where
    ws: "length ws = Suc k" "ws ! 0 = w1" "ws ! k = w'"
    and len: "length pairs = length (acc @ [p]) + k"
    and tk: "take (length (acc @ [p])) pairs = acc @ [p]"
    and calls: "\<forall>i<k. get_dissimilar_pair n m (ws ! i)
                         = Some (Inr (pairs ! (length (acc @ [p]) + i)), ws ! Suc i)"
    by blast
  from tk have "(take (Suc (length acc)) pairs) ! length acc = (acc @ [p]) ! length acc"
    by simp
  then have here: "pairs ! length acc = p" by simp
  from tk have "take (length acc) (take (Suc (length acc)) pairs) = take (length acc) (acc @ [p])"
    by simp
  then have tk': "take (length acc) pairs = acc" by (simp add: min_def)
  have "\<forall>i<Suc k. get_dissimilar_pair n m ((w # ws) ! i)
                     = Some (Inr (pairs ! (length acc + i)), (w # ws) ! Suc i)"
  proof (intro allI impI)
    fix i assume "i < Suc k"
    show "get_dissimilar_pair n m ((w # ws) ! i)
            = Some (Inr (pairs ! (length acc + i)), (w # ws) ! Suc i)"
    proof (cases i)
      case 0
      with call here ws show ?thesis by simp
    next
      case (Suc i')
      with \<open>i < Suc k\<close> calls show ?thesis by simp
    qed
  qed
  with ws len tk' show ?case
    by (intro exI [of _ "w # ws"]) simp
qed

text \<open>
  Claim C6. When the pair-construction cell completes without an exception, the list
  of dissimilar pairs is as long as the list of similar pairs, and it was built by
  exactly that many calls of \<^verbatim>\<open>get_dissimilar_pair\<close>, one after the other on the
  interpreter states \<open>ws\<close>: the \<open>i\<close>-th call returned the \<open>i\<close>-th pair.
\<close>

theorem dissimilar_count_matches:
  assumes "pair_cell s = Some (None, s')"
  shows "length (potential_dissimilar_pairs s') = length (potential_similar_pairs s')
       \<and> (\<exists>ws. length ws = Suc (length (potential_similar_pairs s'))
               \<and> ws ! 0 = io s \<and> ws ! length (potential_similar_pairs s') = io s'
               \<and> (\<forall>i<length (potential_similar_pairs s').
                     get_dissimilar_pair (num_pods s') (both s') (ws ! i)
                       = Some (Inr (potential_dissimilar_pairs s' ! i), ws ! Suc i)))"
proof -
  from pair_cell_result [OF assms] obtain pairs w' where
    loop: "dissimilar_loop (length (potential_similar_pairs (pair_cell_similar s))) (num_pods s)
             (both (pair_cell_similar s)) [] (io s) = Some (None, pairs, w')"
    and s': "s' = (pair_cell_similar s)\<lparr>potential_dissimilar_pairs := pairs, io := w'\<rparr>"
    by blast
  from dissimilar_loop_calls [OF loop] show ?thesis
    by (auto simp: s' pair_cell_similar_fields)
qed

lemma permutations2_product:
  "permutations2 xs =
     map (\<lambda>(i, j). (xs ! i, xs ! j))
       (filter (\<lambda>(i, j). j \<noteq> i) (List.product [0..<length xs] [0..<length xs]))"
proof -
  have "concat (map (\<lambda>i. map (\<lambda>j. (xs ! i, xs ! j)) (filter (\<lambda>j. j \<noteq> i) js)) is)
        = map (\<lambda>(i, j). (xs ! i, xs ! j)) (filter (\<lambda>(i, j). j \<noteq> i) (List.product is js))"
    for "is" js :: "nat list"
    by (induction "is") (simp_all add: filter_map comp_def)
  then show ?thesis by (simp add: permutations2_def)
qed

lemma distinct_index_pairs:
  "distinct (filter (\<lambda>(i, j). j \<noteq> i) (List.product [0..<n] [0..<n]))"
  by (simp add: distinct_product)

lemma set_index_pairs:
  "set (filter (\<lambda>(i, j). j \<noteq> i) (List.product [0..<n] [0..<n]))
     = {(i, j). i < n \<and> j < n \<and> j \<noteq> i}"
  by auto

lemma mset_swap_index_pairs:
  "mset (map prod.swap (filter (\<lambda>(i, j). j \<noteq> i) (List.product [0..<n] [0..<n])))
     = mset (filter (\<lambda>(i, j). j \<noteq> i) (List.product [0..<n] [0..<n]))"
proof -
  let ?L = "filter (\<lambda>(i, j). j \<noteq> i) (List.product [0..<n] [0..<n])"
  have d: "distinct (map prod.swap ?L)"
    by (simp add: distinct_map distinct_index_pairs)
  have "set (map prod.swap ?L) = set ?L"
    unfolding set_map set_index_pairs by auto
  with d distinct_index_pairs [of n] show ?thesis
    by (simp only: set_eq_iff_mset_eq_distinct)
qed

lemma mset_swap_permutations2:
  "mset (map prod.swap (permutations2 xs)) = mset (permutations2 xs)"
proof -
  let ?L = "filter (\<lambda>(i, j). j \<noteq> i) (List.product [0..<length xs] [0..<length xs])"
  let ?f = "\<lambda>(i, j). (xs ! i, xs ! j)"
  have "map prod.swap (map ?f ?L) = map ?f (map prod.swap ?L)"
    by (simp add: comp_def case_prod_unfold)
  then have "mset (map prod.swap (permutations2 xs)) = image_mset ?f (mset (map prod.swap ?L))"
    by (simp only: permutations2_product mset_map)
  also have "\<dots> = image_mset ?f (mset ?L)"
    by (simp only: mset_swap_index_pairs)
  also have "\<dots> = mset (permutations2 xs)"
    by (simp only: permutations2_product mset_map)
  finally show ?thesis .
qed

lemma set_permutations2:
  "set (permutations2 xs) = {(xs ! i, xs ! j) | i j. i < length xs \<and> j < length xs \<and> j \<noteq> i}"
  unfolding permutations2_product set_map set_index_pairs by auto

lemma set_permutations2_distinct:
  assumes "distinct xs"
  shows "set (permutations2 xs) = {(a, b). a \<in> set xs \<and> b \<in> set xs \<and> a \<noteq> b}"
  unfolding set_permutations2 using assms
  by (auto simp: in_set_conv_nth nth_eq_iff_index_eq)

lemma np_where_eq_set:
  "distinct (np_where_eq person v)"
  "set (np_where_eq person v) = {i. i < length person \<and> person ! i = v}"
  by (auto simp: np_where_eq_def)

lemma similar_loop_concat:
  "similar_loop rows v acc
     = acc @ concat (map (\<lambda>person. permutations2 (np_where_eq person v)) rows)"
  by (induction rows arbitrary: acc) simp_all

lemma set_mask_rows:
  "set (mask_rows m flags) = {m ! p | p. p < length m \<and> p < length flags \<and> flags ! p}"
  unfolding mask_rows_def by (force simp: set_zip image_iff)

lemma mset_swap_concat:
  assumes "\<And>xs. xs \<in> set xss \<Longrightarrow> mset (map prod.swap xs) = mset xs"
  shows "mset (map prod.swap (concat xss)) = mset (concat xss)"
  using assms by (induction xss) simp_all

lemma distinct_permutations2:
  assumes "distinct xs"
  shows "distinct (permutations2 xs)"
proof -
  let ?L = "filter (\<lambda>(i, j). j \<noteq> i) (List.product [0..<length xs] [0..<length xs])"
  have "inj_on (\<lambda>(i, j). (xs ! i, xs ! j)) (set ?L)"
    using assms by (auto simp: inj_on_def nth_eq_iff_index_eq)
  then show ?thesis
    unfolding permutations2_product by (simp add: distinct_map distinct_product)
qed

lemma similar_rows_member:
  assumes "(a, b) \<in> set (concat (map (\<lambda>person. permutations2 (np_where_eq person v))
                                    (mask_rows B flags)))"
  shows "a \<noteq> b \<and> (\<exists>p. p < length B \<and> p < length flags \<and> flags ! p
                       \<and> a < length (B ! p) \<and> b < length (B ! p)
                       \<and> B ! p ! a = v \<and> B ! p ! b = v)"
proof -
  from assms obtain person where
    person: "person \<in> set (mask_rows B flags)"
    and ab: "(a, b) \<in> set (permutations2 (np_where_eq person v))"
    by auto
  from person obtain p where
    p: "p < length B" "p < length flags" "flags ! p" "person = B ! p"
    unfolding set_mask_rows by blast
  from ab have "a \<in> set (np_where_eq person v)" "b \<in> set (np_where_eq person v)" "a \<noteq> b"
    by (simp_all add: set_permutations2_distinct [OF np_where_eq_set(1)])
  then have "a < length person" "b < length person" "person ! a = v" "person ! b = v" "a \<noteq> b"
    by (simp_all add: np_where_eq_set(2))
  with p show ?thesis by blast
qed

lemma similar_pairs_concat:
  "potential_similar_pairs (pair_cell_similar s)
     = concat (map (\<lambda>person. permutations2 (np_where_eq person 1))
                 (mask_rows (both (pair_cell_similar s)) (multiprefs_liked s)))
     @ concat (map (\<lambda>person. permutations2 (np_where_eq person (- 1)))
                 (mask_rows (both (pair_cell_similar s)) (multiprefs_disliked s)))"
  by (simp add: pair_cell_similar_pairs similar_loop_concat)

text \<open>
  Claim C5. When every row of \<open>normed\<close> has \<open>num_pods\<close> columns, every pair in the
  similar-pair list consists of two distinct podcast indices below \<open>num_pods\<close>, and
  there is a person who either has at least 2 liked podcasts and likes both podcasts
  of the pair, or has at least 2 disliked podcasts and dislikes both. In particular no
  pair \<open>(i, i)\<close> occurs in the list.
\<close>

theorem similar_pairs_wellformed:
  assumes "list_all (\<lambda>row. length row = num_pods s) (normed s)"
  shows "\<forall>(a, b) \<in> set (potential_similar_pairs (pair_cell_similar (threshold_cell t s))).
           a \<noteq> b \<and> a < num_pods s \<and> b < num_pods s
           \<and> (\<exists>p<length (normed s).
                 (2 \<le> card {i. i < num_pods s \<and> normed s ! p ! i > t}
                    \<and> normed s ! p ! a > t \<and> normed s ! p ! b > t)
               \<or> (2 \<le> card {i. i < num_pods s \<and> normed s ! p ! i < - t}
                    \<and> normed s ! p ! a < - t \<and> normed s ! p ! b < - t))"
proof (intro ballI, clarify)
  fix a b
  let ?S = "pair_cell_similar (threshold_cell t s)"
  let ?B = "map (map (polarity t)) (normed s)"
  assume "(a, b) \<in> set (potential_similar_pairs ?S)"
  then consider
    (liked) "(a, b) \<in> set (concat (map (\<lambda>person. permutations2 (np_where_eq person 1))
        (mask_rows ?B (row_sums_gt1 (np_greater (normed s) t)))))"
    | (disliked) "(a, b) \<in> set (concat (map (\<lambda>person. permutations2 (np_where_eq person (- 1)))
        (mask_rows ?B (row_sums_gt1 (np_less (normed s) (- t))))))"
    unfolding similar_pairs_concat both_after_threshold threshold_cell_fields by auto
  then show "a \<noteq> b \<and> a < num_pods s \<and> b < num_pods s
           \<and> (\<exists>p<length (normed s).
                 (2 \<le> card {i. i < num_pods s \<and> normed s ! p ! i > t}
                    \<and> normed s ! p ! a > t \<and> normed s ! p ! b > t)
               \<or> (2 \<le> card {i. i < num_pods s \<and> normed s ! p ! i < - t}
                    \<and> normed s ! p ! a < - t \<and> normed s ! p ! b < - t))"
  proof cases
    case liked
    from similar_rows_member [OF liked] obtain p where
      ab: "a \<noteq> b" and p: "p < length (normed s)"
      and flag: "row_sums_gt1 (np_greater (normed s) t) ! p"
      and a: "a < length (normed s ! p)" "polarity t (normed s ! p ! a) = 1"
      and b: "b < length (normed s ! p)" "polarity t (normed s ! p ! b) = 1"
      by auto
    from assms p have len: "length (normed s ! p) = num_pods s"
      by (simp add: list_all_length)
    from flag p len have "2 \<le> card {i. i < num_pods s \<and> normed s ! p ! i > t}"
      by (simp add: row_sums_gt1_np_greater)
    with ab p a b len show ?thesis
      by (auto simp: polarity_eq_1)
  next
    case disliked
    from similar_rows_member [OF disliked] obtain p where
      ab: "a \<noteq> b" and p: "p < length (normed s)"
      and flag: "row_sums_gt1 (np_less (normed s) (- t)) ! p"
      and a: "a < length (normed s ! p)" "polarity t (normed s ! p ! a) = - 1"
      and b: "b < length (normed s ! p)" "polarity t (normed s ! p ! b) = - 1"
      by auto
    from assms p have len: "length (normed s ! p) = num_pods s"
      by (simp add: list_all_length)
    from flag p len have "2 \<le> card {i. i < num_pods s \<and> normed s ! p ! i < - t}"
      by (simp add: row_sums_gt1_np_less)
    with ab p a b len show ?thesis
      by (auto simp: polarity_eq_m1)
  qed
qed

lemma mask_rows_indices:
  assumes "length flags = length m"
  shows "mask_rows m flags = map (\<lambda>p. m ! p) (filter (\<lambda>p. flags ! p) [0..<length m])"
proof -
  have "zip m flags = map (\<lambda>p. (m ! p, flags ! p)) [0..<length m]"
    using assms by (intro nth_equalityI) simp_all
  then show ?thesis
    by (simp add: mask_rows_def filter_map comp_def)
qed

lemma np_where_eq_polarity:
  "np_where_eq (map (polarity t) row) v
     = filter (\<lambda>i. polarity t (row ! i) = v) [0..<length row]"
  unfolding np_where_eq_def by (rule filter_cong) simp_all

lemma row_sums_gt1_np_greater_length:
  assumes "p < length m"
  shows "row_sums_gt1 (np_greater m u) ! p \<longleftrightarrow> 2 \<le> length (filter (\<lambda>x. u < x) (m ! p))"
  using assms by (auto simp: row_sums_gt1_def np_greater_def sum_list_indicator)

lemma row_sums_gt1_np_less_length:
  assumes "p < length m"
  shows "row_sums_gt1 (np_less m u) ! p \<longleftrightarrow> 2 \<le> length (filter (\<lambda>x. x < u) (m ! p))"
  using assms by (auto simp: row_sums_gt1_def np_less_def sum_list_indicator)

lemma similar_rows_by_index:
  assumes "length flags = length m"
    and "\<And>p. p < length m \<Longrightarrow> flags ! p \<longleftrightarrow> Q p"
  shows "concat (map (\<lambda>person. permutations2 (np_where_eq person v))
                   (mask_rows (map (map (polarity t)) m) flags))
       = concat (map (\<lambda>p. permutations2
                       (filter (\<lambda>i. polarity t (m ! p ! i) = v) [0..<length (m ! p)]))
                   (filter Q [0..<length m]))"
proof -
  have sel: "filter (\<lambda>p. flags ! p) [0..<length m] = filter Q [0..<length m]"
    by (rule filter_cong) (simp_all add: assms(2))
  have "map (\<lambda>person. permutations2 (np_where_eq person v))
          (mask_rows (map (map (polarity t)) m) flags)
        = map (\<lambda>p. permutations2 (np_where_eq (map (map (polarity t)) m ! p) v))
            (filter Q [0..<length m])"
    using assms(1) by (simp add: mask_rows_indices sel comp_def)
  also have "\<dots> = map (\<lambda>p. permutations2
                       (filter (\<lambda>i. polarity t (m ! p ! i) = v) [0..<length (m ! p)]))
                   (filter Q [0..<length m])"
    by (rule map_cong) (simp_all add: np_where_eq_polarity)
  finally show ?thesis by simp
qed

lemma similar_pairs_from_normed:
  "potential_similar_pairs (pair_cell_similar (threshold_cell t s))
     = concat (map (\<lambda>p. permutations2
                     (filter (\<lambda>i. t < normed s ! p ! i \<and> \<not> normed s ! p ! i < - t)
                        [0..<length (normed s ! p)]))
                 (filter (\<lambda>p. 2 \<le> length (filter (\<lambda>x. t < x) (normed s ! p)))
                    [0..<length (normed s)]))
     @ concat (map (\<lambda>p. permutations2
                     (filter (\<lambda>i. normed s ! p ! i < - t \<and> \<not> t < normed s ! p ! i)
                        [0..<length (normed s ! p)]))
                 (filter (\<lambda>p. 2 \<le> length (filter (\<lambda>x. x < - t) (normed s ! p)))
                    [0..<length (normed s)]))"
proof -
  let ?m = "normed s"
  have l: "concat (map (\<lambda>person. permutations2 (np_where_eq person 1))
             (mask_rows (map (map (polarity t)) ?m) (row_sums_gt1 (np_greater ?m t))))
         = concat (map (\<lambda>p. permutations2
                     (filter (\<lambda>i. polarity t (?m ! p ! i) = 1) [0..<length (?m ! p)]))
                 (filter (\<lambda>p. 2 \<le> length (filter (\<lambda>x. t < x) (?m ! p))) [0..<length ?m]))"
    by (rule similar_rows_by_index)
      (simp_all add: row_sums_gt1_np_greater_length, simp add: row_sums_gt1_def np_greater_def)
  have d: "concat (map (\<lambda>person. permutations2 (np_where_eq person (- 1)))
             (mask_rows (map (map (polarity t)) ?m) (row_sums_gt1 (np_less ?m (- t)))))
         = concat (map (\<lambda>p. permutations2
                     (filter (\<lambda>i. polarity t (?m ! p ! i) = - 1) [0..<length (?m ! p)]))
                 (filter (\<lambda>p. 2 \<le> length (filter (\<lambda>x. x < - t) (?m ! p))) [0..<length ?m]))"
    by (rule similar_rows_by_index)
      (simp_all add: row_sums_gt1_np_less_length, simp add: row_sums_gt1_def np_less_def)
  have "potential_similar_pairs (pair_cell_similar (threshold_cell t s))
      = concat (map (\<lambda>person. permutations2 (np_where_eq person 1))
             (mask_rows (map (map (polarity t)) ?m) (row_sums_gt1 (np_greater ?m t))))
      @ concat (map (\<lambda>person. permutations2 (np_where_eq person (- 1)))
             (mask_rows (map (map (polarity t)) ?m) (row_sums_gt1 (np_less ?m (- t)))))"
    by (simp only: similar_pairs_concat both_after_threshold threshold_cell_fields)
  then show ?thesis
    by (simp only: l d polarity_eq_1 polarity_eq_m1)
qed

lemma permutations2_of_indices:
  "distinct (permutations2 (filter P [0..<n]))
   \<and> set (permutations2 (filter P [0..<n])) = {(a, b). a < n \<and> b < n \<and> P a \<and> P b \<and> a \<noteq> b}"
proof -
  have d: "distinct (filter P [0..<n])" by simp
  show ?thesis
    by (auto simp: distinct_permutations2 [OF d] set_permutations2_distinct [OF d])
qed

text \<open>
  Claim C7. The similar-pair list is built, for each qualifying person, from all
  ordered 2-permutations of the person's liked index set, and separately of the
  disliked set. Precisely, in terms of the matrix \<open>normed\<close> and the threshold \<open>t\<close>:
  the list is the concatenation, over the people with at least 2 entries above \<open>t\<close>
  in ascending order, of \<^verbatim>\<open>permutations(idx, 2)\<close> of the ascending list \<open>idx\<close> of the
  person's indices whose polarity is 1, followed by the same over the people with at
  least 2 entries below \<open>-t\<close> and their indices of polarity -1. For \<open>t \<ge> 0\<close>
  polarity 1 is "above \<open>t\<close>" (liked) and polarity -1 is "below \<open>-t\<close>" (disliked).
  \<^verbatim>\<open>permutations(idx, 2)\<close> holds every ordered pair of two different indices of
  \<open>idx\<close> exactly once; so every ordered pair of two different liked (or disliked)
  indices of a qualifying person is in the list, and each pair \<open>(i, j)\<close> occurs in the
  list as often as \<open>(j, i)\<close>.
\<close>

theorem similar_pairs_all_permutations:
  "potential_similar_pairs (pair_cell_similar (threshold_cell t s))
     = concat (map (\<lambda>p. permutations2
                     (filter (\<lambda>i. t < normed s ! p ! i \<and> \<not> normed s ! p ! i < - t)
                        [0..<length (normed s ! p)]))
                 (filter (\<lambda>p. 2 \<le> length (filter (\<lambda>x. t < x) (normed s ! p)))
                    [0..<length (normed s)]))
     @ concat (map (\<lambda>p. permutations2
                     (filter (\<lambda>i. normed s ! p ! i < - t \<and> \<not> t < normed s ! p ! i)
                        [0..<length (normed s ! p)]))
                 (filter (\<lambda>p. 2 \<le> length (filter (\<lambda>x. x < - t) (normed s ! p)))
                    [0..<length (normed s)]))
   \<and> (0 \<le> t \<longrightarrow>
        potential_similar_pairs (pair_cell_similar (threshold_cell t s))
          = concat (map (\<lambda>p. permutations2
                          (filter (\<lambda>i. t < normed s ! p ! i) [0..<length (normed s ! p)]))
                      (filter (\<lambda>p. 2 \<le> length (filter (\<lambda>x. t < x) (normed s ! p)))
                         [0..<length (normed s)]))
          @ concat (map (\<lambda>p. permutations2
                          (filter (\<lambda>i. normed s ! p ! i < - t) [0..<length (normed s ! p)]))
                      (filter (\<lambda>p. 2 \<le> length (filter (\<lambda>x. x < - t) (normed s ! p)))
                         [0..<length (normed s)])))
   \<and> (\<forall>P n. distinct (permutations2 (filter P [0..<n]))
        \<and> set (permutations2 (filter P [0..<n]))
            = {(a, b). a < n \<and> b < n \<and> P a \<and> P b \<and> a \<noteq> b})
   \<and> (\<forall>p a b. p < length (normed s) \<and> a < length (normed s ! p) \<and> b < length (normed s ! p)
          \<and> a \<noteq> b \<and> 0 \<le> t
          \<and> ((2 \<le> length (filter (\<lambda>x. t < x) (normed s ! p))
                \<and> t < normed s ! p ! a \<and> t < normed s ! p ! b)
             \<or> (2 \<le> length (filter (\<lambda>x. x < - t) (normed s ! p))
                \<and> normed s ! p ! a < - t \<and> normed s ! p ! b < - t))
        \<longrightarrow> (a, b) \<in> set (potential_similar_pairs (pair_cell_similar (threshold_cell t s))))
   \<and> (\<forall>i j. count_list (potential_similar_pairs (pair_cell_similar (threshold_cell t s))) (i, j)
             = count_list (potential_similar_pairs (pair_cell_similar (threshold_cell t s))) (j, i))"
proof -
  let ?ps = "potential_similar_pairs (pair_cell_similar (threshold_cell t s))"
  let ?m = "normed s"
  let ?L = "\<lambda>p. filter (\<lambda>i. t < ?m ! p ! i) [0..<length (?m ! p)]"
  let ?D = "\<lambda>p. filter (\<lambda>i. ?m ! p ! i < - t) [0..<length (?m ! p)]"
  let ?QL = "\<lambda>p. 2 \<le> length (filter (\<lambda>x. t < x) (?m ! p))"
  let ?QD = "\<lambda>p. 2 \<le> length (filter (\<lambda>x. x < - t) (?m ! p))"
  note general = similar_pairs_from_normed [of t s]
  have simple: "?ps = concat (map (\<lambda>p. permutations2 (?L p)) (filter ?QL [0..<length ?m]))
                    @ concat (map (\<lambda>p. permutations2 (?D p)) (filter ?QD [0..<length ?m]))"
    if "0 \<le> t"
  proof -
    have "(t < x \<and> \<not> x < - t) = (t < x)" "(x < - t \<and> \<not> t < x) = (x < - t)" for x :: real
      using that by auto
    then show ?thesis by (simp only: general)
  qed
  have complete: "(a, b) \<in> set ?ps"
    if "p < length ?m" "a < length (?m ! p)" "b < length (?m ! p)" "a \<noteq> b" "0 \<le> t"
      "(?QL p \<and> t < ?m ! p ! a \<and> t < ?m ! p ! b) \<or> (?QD p \<and> ?m ! p ! a < - t \<and> ?m ! p ! b < - t)"
    for p a b
    using that(6)
  proof
    assume h: "?QL p \<and> t < ?m ! p ! a \<and> t < ?m ! p ! b"
    with that have "(a, b) \<in> set (permutations2 (?L p))"
      by (simp add: permutations2_of_indices)
    moreover from h that(1) have "p \<in> set (filter ?QL [0..<length ?m])" by simp
    ultimately have "(a, b) \<in> set (concat (map (\<lambda>p. permutations2 (?L p)) (filter ?QL [0..<length ?m])))"
      unfolding set_concat set_map by blast
    then show ?thesis unfolding simple [OF that(5)] by simp
  next
    assume h: "?QD p \<and> ?m ! p ! a < - t \<and> ?m ! p ! b < - t"
    with that have "(a, b) \<in> set (permutations2 (?D p))"
      by (simp add: permutations2_of_indices)
    moreover from h that(1) have "p \<in> set (filter ?QD [0..<length ?m])" by simp
    ultimately have "(a, b) \<in> set (concat (map (\<lambda>p. permutations2 (?D p)) (filter ?QD [0..<length ?m])))"
      unfolding set_concat set_map by blast
    then show ?thesis unfolding simple [OF that(5)] by simp
  qed
  have part: "mset (map prod.swap (concat (map (\<lambda>person. permutations2 (np_where_eq person v)) rows)))
               = mset (concat (map (\<lambda>person. permutations2 (np_where_eq person v)) rows))"
    for v rows
  proof (rule mset_swap_concat)
    fix xs assume "xs \<in> set (map (\<lambda>person. permutations2 (np_where_eq person v)) rows)"
    then obtain person where "xs = permutations2 (np_where_eq person v)" by auto
    then show "mset (map prod.swap xs) = mset xs" by (simp only: mset_swap_permutations2)
  qed
  have sw: "mset (map prod.swap ?ps) = mset ?ps"
    unfolding similar_pairs_concat map_append mset_append by (simp only: part)
  have sym: "count_list ?ps (i, j) = count_list ?ps (j, i)" for i j
  proof -
    have "count_list ?ps (j, i) = count_list (map prod.swap ?ps) (prod.swap (j, i))"
      by (rule count_list_map_conv [symmetric]) (simp add: inj_on_def)
    also have "\<dots> = count (mset (map prod.swap ?ps)) (i, j)"
      by (simp only: count_mset swap_simp)
    also have "\<dots> = count_list ?ps (i, j)"
      by (simp only: sw count_mset)
    finally show ?thesis by simp
  qed
  show ?thesis
  proof (intro conjI)
    show "?ps = concat (map (\<lambda>p. permutations2
                     (filter (\<lambda>i. t < ?m ! p ! i \<and> \<not> ?m ! p ! i < - t) [0..<length (?m ! p)]))
                 (filter ?QL [0..<length ?m]))
     @ concat (map (\<lambda>p. permutations2
                     (filter (\<lambda>i. ?m ! p ! i < - t \<and> \<not> t < ?m ! p ! i) [0..<length (?m ! p)]))
                 (filter ?QD [0..<length ?m]))"
      by (rule general)
    show "0 \<le> t \<longrightarrow> ?ps = concat (map (\<lambda>p. permutations2 (?L p)) (filter ?QL [0..<length ?m]))
                    @ concat (map (\<lambda>p. permutations2 (?D p)) (filter ?QD [0..<length ?m]))"
      using simple by (rule impI)
    show "\<forall>P n. distinct (permutations2 (filter P [0..<n]))
        \<and> set (permutations2 (filter P [0..<n]))
            = {(a, b). a < n \<and> b < n \<and> P a \<and> P b \<and> a \<noteq> b}"
      using permutations2_of_indices by (intro allI)
    show "\<forall>p a b. p < length ?m \<and> a < length (?m ! p) \<and> b < length (?m ! p)
          \<and> a \<noteq> b \<and> 0 \<le> t
          \<and> ((?QL p \<and> t < ?m ! p ! a \<and> t < ?m ! p ! b)
             \<or> (?QD p \<and> ?m ! p ! a < - t \<and> ?m ! p ! b < - t))
        \<longrightarrow> (a, b) \<in> set ?ps"
    proof (intro allI impI)
      fix p a b
      assume h: "p < length ?m \<and> a < length (?m ! p) \<and> b < length (?m ! p)
          \<and> a \<noteq> b \<and> 0 \<le> t
          \<and> ((?QL p \<and> t < ?m ! p ! a \<and> t < ?m ! p ! b)
             \<or> (?QD p \<and> ?m ! p ! a < - t \<and> ?m ! p ! b < - t))"
      from h have "p < length ?m" "a < length (?m ! p)" "b < length (?m ! p)" "a \<noteq> b" "0 \<le> t"
        "(?QL p \<and> t < ?m ! p ! a \<and> t < ?m ! p ! b) \<or> (?QD p \<and> ?m ! p ! a < - t \<and> ?m ! p ! b < - t)"
        by blast+
      then show "(a, b) \<in> set ?ps" by (rule complete)
    qed
    show "\<forall>i j. count_list ?ps (i, j) = count_list ?ps (j, i)"
      using sym by (intro allI)
  qed
qed

section \<open>A run that never ends\<close>

text \<open>
  Claim C2 says that every call of \<^verbatim>\<open>get_dissimilar_pair\<close> terminates, the sampler
  giving up after 1000 resample attempts and printing a note. The code does not do
  that: with two podcasts and one person who liked both, the call never returns,
  whatever the random generator draws; and so the notebook itself never finishes the
  pair-construction cell on one person with normalised affinities (0.6, 0.8).
\<close>

theorem get_dissimilar_pair_liked_everything_diverges:
  "get_dissimilar_pair 2 [[1, 1]] w = None
   \<and> run_notebook 2 [[3/5, 4/5]] (17/100) w = None"
proof -
  have loop: "resample_loop 2 [1, 1] 0 w' = None" for w'
    by (rule resample_loop_diverges) (auto simp: less_Suc_eq numeral_2_eq_2)
  have call: "get_dissimilar_pair 2 [[1, 1]] w' = None" for w'
    by (simp add: get_dissimilar_pair_def random_choices_first_def randbelow_def loop)
  have b: "both (before_sampling 2 [[3/5, 4/5]] (17/100) w) = [[1, 1]]"
    by (simp add: before_sampling_def both_after_threshold simulation_result_def polarity_def)
  have n: "num_pods (before_sampling 2 [[3/5, 4/5]] (17/100) w) = 2"
    by (simp add: before_sampling_def pair_cell_similar_fields threshold_cell_fields
        simulation_result_def)
  have "potential_similar_pairs (before_sampling 2 [[3/5, 4/5]] (17/100) w) = [(0, 1), (1, 0)]"
    by code_simp
  then have ps: "length (potential_similar_pairs (before_sampling 2 [[3/5, 4/5]] (17/100) w)) = Suc (Suc 0)"
    by simp
  have "run_notebook 2 [[3/5, 4/5]] (17/100) w = None"
proof -
    have "normalize_accepts 2 [[3/5, 4/5]]"
      by (simp add: normalize_accepts_def)
    then show ?thesis
      unfolding run_notebook_def pair_cell_def before_sampling_def [symmetric] Let_def
      by (simp only: ps b n dissimilar_loop.simps call option.case if_True)
  qed
  with call show ?thesis by simp
qed

section \<open>Who is chosen for a dissimilar pair\<close>

text \<open>
  \<^verbatim>\<open>get_dissimilar_pair\<close> chooses among all rows of the matrix it is given: the row at
  the drawn index, whatever the masks say; every row can be drawn. The cell passes the
  whole matrix \<open>both\<close>, one row for each person of \<open>normed\<close>.
\<close>

lemma get_dissimilar_pair_chooses_row:
  assumes "both_rows \<noteq> []"
  shows "get_dissimilar_pair n_pods both_rows w
           = resample_loop n_pods (both_rows ! (py_tape w (py_pos w) mod length both_rows)) 0
               (w\<lparr>py_pos := Suc (py_pos w)\<rparr>)
       \<and> py_tape w (py_pos w) mod length both_rows < length both_rows
       \<and> (\<forall>p<length both_rows. \<exists>tape.
             fst (random_choices_first both_rows (w\<lparr>py_tape := tape\<rparr>)) = Inr (both_rows ! p))
       \<and> length (both (pair_cell_similar (threshold_cell t s))) = length (normed s)"
proof (intro conjI)
  show "get_dissimilar_pair n_pods both_rows w
           = resample_loop n_pods (both_rows ! (py_tape w (py_pos w) mod length both_rows)) 0
               (w\<lparr>py_pos := Suc (py_pos w)\<rparr>)"
    using assms by (simp add: get_dissimilar_pair_def random_choices_first_def randbelow_def)
  show "py_tape w (py_pos w) mod length both_rows < length both_rows"
    using assms by simp
  show "\<forall>p<length both_rows. \<exists>tape.
             fst (random_choices_first both_rows (w\<lparr>py_tape := tape\<rparr>)) = Inr (both_rows ! p)"
  proof (intro allI impI)
    fix p assume "p < length both_rows"
    then have "fst (random_choices_first both_rows (w\<lparr>py_tape := (\<lambda>k. p)\<rparr>)) = Inr (both_rows ! p)"
      using assms by (simp add: random_choices_first_def randbelow_def)
    then show "\<exists>tape. fst (random_choices_first both_rows (w\<lparr>py_tape := tape\<rparr>)) = Inr (both_rows ! p)"
      by (rule exI [of _ "\<lambda>k. p"])
  qed
  show "length (both (pair_cell_similar (threshold_cell t s))) = length (normed s)"
    by (simp add: both_after_threshold)
qed

text \<open>
  Claim C3 says that the person of a dissimilar-pair request is picked among the people
  with at least 2 likes or at least 2 dislikes only. The comment above the masks speaks
  of discarding the other people, and the cell computes the mask \<open>contains_similar\<close>
  of the qualifying people, but never uses it: the sampler is given all of \<open>both\<close>.
  In a run with two people, one who liked both podcasts and one who liked a single
  podcast and disliked none, a draw of 1 makes \<^verbatim>\<open>random.choices(both)\<close> pick the second
  person, who is in neither \<^verbatim>\<open>both[multiprefs_liked]\<close> nor
  \<^verbatim>\<open>both[multiprefs_disliked]\<close> and whose entry of \<open>contains_similar\<close> is false; the
  call returns the pair (1, 0) for that person, and the run ends with both dissimilar
  pairs drawn for that person.
\<close>

theorem chosen_person_need_not_qualify:
  "fst (random_choices_first (both (before_sampling 2 [[3/5, 4/5], [1, 0]] (17/100) (initial_world (\<lambda>k. 1))))
         (io (before_sampling 2 [[3/5, 4/5], [1, 0]] (17/100) (initial_world (\<lambda>k. 1)))))
     = Inr [1, 0]
   \<and> [1, 0] \<notin> set (mask_rows (both (before_sampling 2 [[3/5, 4/5], [1, 0]] (17/100) (initial_world (\<lambda>k. 1))))
                      (multiprefs_liked (before_sampling 2 [[3/5, 4/5], [1, 0]] (17/100) (initial_world (\<lambda>k. 1))))
                  @ mask_rows (both (before_sampling 2 [[3/5, 4/5], [1, 0]] (17/100) (initial_world (\<lambda>k. 1))))
                      (multiprefs_disliked (before_sampling 2 [[3/5, 4/5], [1, 0]] (17/100) (initial_world (\<lambda>k. 1)))))
   \<and> contains_similar (before_sampling 2 [[3/5, 4/5], [1, 0]] (17/100) (initial_world (\<lambda>k. 1)))
     = [True, False]
   \<and> map_option fst (get_dissimilar_pair 2
         (both (before_sampling 2 [[3/5, 4/5], [1, 0]] (17/100) (initial_world (\<lambda>k. 1))))
         (io (before_sampling 2 [[3/5, 4/5], [1, 0]] (17/100) (initial_world (\<lambda>k. 1)))))
     = Some (Inr (1, 0))
   \<and> map_option (\<lambda>(exc, s). (exc, potential_similar_pairs s, potential_dissimilar_pairs s))
        (run_notebook 2 [[3/5, 4/5], [1, 0]] (17/100) (initial_world (\<lambda>k. 1)))
     = Some (None, [(0, 1), (1, 0)], [(1, 0), (1, 0)])"
  by code_simp

section \<open>Sampling when nobody qualifies\<close>

text \<open>
  A direct call of \<^verbatim>\<open>get_dissimilar_pair\<close> on a matrix without rows raises
  \<^verbatim>\<open>IndexError\<close>, and choosing the person fails in no other case.
\<close>

lemma get_dissimilar_pair_no_rows:
  "get_dissimilar_pair n_pods [] w = Some (Inl IndexError, w\<lparr>py_pos := Suc (py_pos w)\<rparr>)
   \<and> (\<forall>e. fst (random_choices_first both_rows w) = Inl e \<longleftrightarrow> both_rows = [] \<and> e = IndexError)"
  by (auto simp: get_dissimilar_pair_def random_choices_first_def randbelow_def)

text \<open>
  When no person is in \<^verbatim>\<open>both[multiprefs_liked]\<close> or \<^verbatim>\<open>both[multiprefs_disliked]\<close>,
  both passes of the similar-pair loop run over no row, the list of similar pairs stays
  empty, and the sampling loop runs zero times.
\<close>

lemma pair_cell_empty_pool:
  assumes "mask_rows (both (pair_cell_similar s)) (multiprefs_liked s)
             @ mask_rows (both (pair_cell_similar s)) (multiprefs_disliked s) = []"
  shows "potential_similar_pairs (pair_cell_similar s) = []"
    and "pair_cell s = Some (None, pair_cell_similar s)"
proof -
  from assms show ps: "potential_similar_pairs (pair_cell_similar s) = []"
    by (simp add: similar_pairs_concat)
  have "(pair_cell_similar s)\<lparr>potential_dissimilar_pairs := [], io := io s\<rparr> = pair_cell_similar s"
    using pair_cell_similar_fields(9,10) [of s] by (cases "pair_cell_similar s") simp
  then show "pair_cell s = Some (None, pair_cell_similar s)"
    by (simp add: pair_cell_def Let_def ps pair_cell_similar_fields)
qed

text \<open>
  With one person who liked a single podcast nobody qualifies, and the run completes
  without an exception: no pair is requested, no draw is read.
\<close>

theorem empty_pool_run_completes:
  "mask_rows (both (before_sampling 2 [[1, 0]] (17/100) (initial_world (\<lambda>k. 1))))
       (multiprefs_liked (before_sampling 2 [[1, 0]] (17/100) (initial_world (\<lambda>k. 1))))
     @ mask_rows (both (before_sampling 2 [[1, 0]] (17/100) (initial_world (\<lambda>k. 1))))
       (multiprefs_disliked (before_sampling 2 [[1, 0]] (17/100) (initial_world (\<lambda>k. 1))))
     = []
   \<and> map_option (\<lambda>(exc, s). (exc, potential_similar_pairs s, potential_dissimilar_pairs s,
                               py_pos (io s)))
        (run_notebook 2 [[1, 0]] (17/100) (initial_world (\<lambda>k. 1)))
     = Some (None, [], [], 0)"
  by code_simp

text \<open>
  Claim C9, amended. When there are people and podcasts but the qualifying-person pool
  (the people with at least 2 likes together with the people with at least 2 dislikes)
  is empty, dissimilar-pair sampling does not fail: the list of similar pairs is empty,
  so no pair is requested and \<^verbatim>\<open>get_dissimilar_pair\<close> is not called; the run completes
  the pair-construction cell without an exception, with an empty list of dissimilar
  pairs and the random generator untouched.
\<close>

theorem empty_pool_no_request:
  assumes "normalize_accepts n m"
    and "mask_rows (both (before_sampling n m t w)) (multiprefs_liked (before_sampling n m t w))
           @ mask_rows (both (before_sampling n m t w)) (multiprefs_disliked (before_sampling n m t w))
         = []"
  shows "run_notebook n m t w = Some (None, before_sampling n m t w)
       \<and> potential_similar_pairs (before_sampling n m t w) = []
       \<and> potential_dissimilar_pairs (before_sampling n m t w) = []
       \<and> py_pos (io (before_sampling n m t w)) = py_pos w
       \<and> py_tape (io (before_sampling n m t w)) = py_tape w"
proof -
  let ?s = "threshold_cell t (simulation_result n m (seed_cell (fresh_notebook w)))"
  have bs: "before_sampling n m t w = pair_cell_similar ?s"
    by (simp add: before_sampling_def)
  from assms(2) have pool: "mask_rows (both (pair_cell_similar ?s)) (multiprefs_liked ?s)
             @ mask_rows (both (pair_cell_similar ?s)) (multiprefs_disliked ?s) = []"
    by (simp only: bs pair_cell_similar_fields)
  have run: "run_notebook n m t w = Some (None, before_sampling n m t w)"
    using assms(1) pair_cell_empty_pool(2) [OF pool] by (simp add: run_notebook_def bs)
  have io: "py_pos (io (before_sampling n m t w)) = py_pos w"
    "py_tape (io (before_sampling n m t w)) = py_tape w"
    by (simp_all add: bs pair_cell_similar_fields threshold_cell_def Let_def
        simulation_result_def seed_cell_def fresh_notebook_def print_line_def np_random_seed_def)
  from run pair_cell_empty_pool(1) [OF pool] io show ?thesis
    by (simp add: bs pair_cell_similar_fields)
qed

theorem empty_pool_no_request_witness:
  "normalize_accepts 2 [[1, 0]]
   \<and> run_notebook 2 [[1, 0]] (17/100) (initial_world (\<lambda>k. 1))
       = Some (None, before_sampling 2 [[1, 0]] (17/100) (initial_world (\<lambda>k. 1)))
   \<and> potential_dissimilar_pairs (before_sampling 2 [[1, 0]] (17/100) (initial_world (\<lambda>k. 1))) = []"
proof -
  have a: "normalize_accepts 2 [[1, 0]]"
    by (simp add: normalize_accepts_def)
  have b: "mask_rows (both (before_sampling 2 [[1, 0]] (17/100) (initial_world (\<lambda>k. 1))))
       (multiprefs_liked (before_sampling 2 [[1, 0]] (17/100) (initial_world (\<lambda>k. 1))))
     @ mask_rows (both (before_sampling 2 [[1, 0]] (17/100) (initial_world (\<lambda>k. 1))))
       (multiprefs_disliked (before_sampling 2 [[1, 0]] (17/100) (initial_world (\<lambda>k. 1))))
     = []"
    by code_simp
  from empty_pool_no_request [OF a b] a show ?thesis by simp
qed

section \<open>Two runs with the same seed\<close>

text \<open>
  Claim C4 says that two runs with the same seed and configuration produce the same
  pair lists. \<^verbatim>\<open>np.random.seed(42)\<close> seeds numpy's generator only; the dissimilar
  pairs are drawn from the \<^verbatim>\<open>random\<close> module, whose state the notebook never sets.
  Two runs on one person with normalised affinities (0.6, 0.8, 0), both seeded with 42,
  agree on the polarity matrix and on the similar pairs, and differ in the dissimilar
  pairs as soon as the \<^verbatim>\<open>random\<close> module starts from different states.
\<close>

theorem same_seed_different_dissimilar_pairs:
  "map_option (\<lambda>(exc, s). (exc, np_seed (io s), both s, potential_similar_pairs s))
       (run_notebook 3 [[3/5, 4/5, 0]] (17/100) (initial_world (\<lambda>k. 2)))
     = Some (None, Some 42, [[1, 1, 0]], [(0, 1), (1, 0)])
   \<and> map_option (\<lambda>(exc, s). (exc, np_seed (io s), both s, potential_similar_pairs s))
       (run_notebook 3 [[3/5, 4/5, 0]] (17/100) (initial_world (\<lambda>k. 5)))
     = Some (None, Some 42, [[1, 1, 0]], [(0, 1), (1, 0)])
   \<and> map_option (\<lambda>(exc, s). potential_dissimilar_pairs s)
       (run_notebook 3 [[3/5, 4/5, 0]] (17/100) (initial_world (\<lambda>k. 2)))
     = Some [(2, 0), (2, 0)]
   \<and> map_option (\<lambda>(exc, s). potential_dissimilar_pairs s)
       (run_notebook 3 [[3/5, 4/5, 0]] (17/100) (initial_world (\<lambda>k. 5)))
     = Some [(2, 1), (2, 1)]"
  by code_simp

section \<open>Concrete runs\<close>

theorem liked_disliked_exclusive_witness:
  "(0::real) < 17/100
   \<and> both (before_sampling 3 [[3/5, 4/5, 0], [- 3/5, - 4/5, 0]] (17/100) (initial_world (\<lambda>k. 2)))
       = [[1, 1, 0], [- 1, - 1, 0]]
   \<and> \<not> (liked (threshold_cell (17/100) (simulation_result 3 [[3/5, 4/5, 0], [- 3/5, - 4/5, 0]]
               (seed_cell (fresh_notebook (initial_world (\<lambda>k. 2)))))) ! 0 ! 0 = 1
        \<and> disliked (threshold_cell (17/100) (simulation_result 3 [[3/5, 4/5, 0], [- 3/5, - 4/5, 0]]
               (seed_cell (fresh_notebook (initial_world (\<lambda>k. 2)))))) ! 0 ! 0 = 1)"
proof -
  have pos: "(0::real) < 17/100" by simp
  have b: "both (before_sampling 3 [[3/5, 4/5, 0], [- 3/5, - 4/5, 0]] (17/100) (initial_world (\<lambda>k. 2)))
       = [[1, 1, 0], [- 1, - 1, 0]]"
    by code_simp
  from liked_disliked_exclusive [OF pos, of "simulation_result 3 [[3/5, 4/5, 0], [- 3/5, - 4/5, 0]]
               (seed_cell (fresh_notebook (initial_world (\<lambda>k. 2))))"]
  show ?thesis using pos b by (simp add: simulation_result_def)
qed

theorem pair_cell_frame_witness:
  "\<exists>s'. pair_cell (threshold_cell (17/100) (simulation_result 3 [[3/5, 4/5, 0], [- 3/5, - 4/5, 0]]
               (seed_cell (fresh_notebook (initial_world (\<lambda>k. 2))))))
          = Some (None, s')
        \<and> normed s' = [[3/5, 4/5, 0], [- 3/5, - 4/5, 0]]
        \<and> disliked s' = [[0, 0, 0], [- 1, - 1, 0]]
        \<and> multiprefs_disliked s' = [False, True]"
proof -
  let ?s = "simulation_result 3 [[3/5, 4/5, 0], [- 3/5, - 4/5, 0]]
               (seed_cell (fresh_notebook (initial_world (\<lambda>k. 2))))"
  have "map_option fst (pair_cell (threshold_cell (17/100) ?s)) = Some None"
    by code_simp
  then obtain s' where run: "pair_cell (threshold_cell (17/100) ?s) = Some (None, s')"
    by (cases "pair_cell (threshold_cell (17/100) ?s)") auto
  have d: "assign_positive_minus1 (disliked (threshold_cell (17/100) ?s)) = [[0, 0, 0], [- 1, - 1, 0]]"
    by code_simp
  have m: "multiprefs_disliked (threshold_cell (17/100) ?s) = [False, True]"
    by code_simp
  from pair_cell_frame [OF run] d m have
    "normed s' = normed ?s \<and> disliked s' = [[0, 0, 0], [- 1, - 1, 0]]
     \<and> multiprefs_disliked s' = [False, True]"
    by simp
  with run show ?thesis by (auto simp: simulation_result_def)
qed

theorem dissimilar_count_matches_witness:
  "\<exists>s'. pair_cell (threshold_cell (17/100) (simulation_result 3 [[3/5, 4/5, 0], [- 3/5, - 4/5, 0]]
               (seed_cell (fresh_notebook (initial_world (\<lambda>k. 2))))))
          = Some (None, s')
        \<and> length (potential_similar_pairs s') = 4
        \<and> length (potential_dissimilar_pairs s') = 4"
proof -
  let ?s = "threshold_cell (17/100) (simulation_result 3 [[3/5, 4/5, 0], [- 3/5, - 4/5, 0]]
               (seed_cell (fresh_notebook (initial_world (\<lambda>k. 2)))))"
  have "map_option (\<lambda>(exc, s'). (exc, length (potential_similar_pairs s'))) (pair_cell ?s)
          = Some (None, 4)"
    by code_simp
  then obtain s' where run: "pair_cell ?s = Some (None, s')"
    and len: "length (potential_similar_pairs s') = 4"
    by (cases "pair_cell ?s") auto
  from dissimilar_count_matches [OF run] len
  have "length (potential_dissimilar_pairs s') = 4" by simp
  with run len show ?thesis by blast
qed

theorem similar_pairs_wellformed_witness:
  "list_all (\<lambda>row. length row = 3) [[3/5, 4/5, 0], [- 3/5, - 4/5, 0 :: real]]
   \<and> potential_similar_pairs (before_sampling 3 [[3/5, 4/5, 0], [- 3/5, - 4/5, 0]] (17/100)
        (initial_world (\<lambda>k. 2))) = [(0, 1), (1, 0), (0, 1), (1, 0)]
   \<and> list_all (\<lambda>(a, b). a \<noteq> b \<and> a < 3 \<and> b < 3)
        (potential_similar_pairs (before_sampling 3 [[3/5, 4/5, 0], [- 3/5, - 4/5, 0]] (17/100)
           (initial_world (\<lambda>k. 2))))"
proof -
  let ?s = "simulation_result 3 [[3/5, 4/5, 0], [- 3/5, - 4/5, 0]]
               (seed_cell (fresh_notebook (initial_world (\<lambda>k. 2))))"
  have wf: "list_all (\<lambda>row. length row = num_pods ?s) (normed ?s)"
    by (simp add: simulation_result_def)
  have ps: "potential_similar_pairs (before_sampling 3 [[3/5, 4/5, 0], [- 3/5, - 4/5, 0]] (17/100)
        (initial_world (\<lambda>k. 2))) = [(0, 1), (1, 0), (0, 1), (1, 0)]"
    by code_simp
  from similar_pairs_wellformed [OF wf, of "17/100"]
  have "list_all (\<lambda>(a, b). a \<noteq> b \<and> a < 3 \<and> b < 3)
        (potential_similar_pairs (before_sampling 3 [[3/5, 4/5, 0], [- 3/5, - 4/5, 0]] (17/100)
           (initial_world (\<lambda>k. 2))))"
    unfolding before_sampling_def list_all_iff by (fastforce simp: simulation_result_def)
  with ps show ?thesis by simp
qed

theorem similar_pairs_all_permutations_witness:
  "(0::real) \<le> 17/100
   \<and> potential_similar_pairs (pair_cell_similar (threshold_cell (17/100)
        (simulation_result 3 [[3/5, 4/5, 0], [2/3, 2/3, 1/3], [- 3/5, - 4/5, 0]]
           (seed_cell (fresh_notebook (initial_world (\<lambda>k. 2)))))))
      = [(0, 1), (1, 0), (0, 1), (0, 2), (1, 0), (1, 2), (2, 0), (2, 1), (0, 1), (1, 0)]
   \<and> (1, 2) \<in> set (potential_similar_pairs (pair_cell_similar (threshold_cell (17/100)
        (simulation_result 3 [[3/5, 4/5, 0], [2/3, 2/3, 1/3], [- 3/5, - 4/5, 0]]
           (seed_cell (fresh_notebook (initial_world (\<lambda>k. 2))))))))
   \<and> count_list (potential_similar_pairs (pair_cell_similar (threshold_cell (17/100)
        (simulation_result 3 [[3/5, 4/5, 0], [2/3, 2/3, 1/3], [- 3/5, - 4/5, 0]]
           (seed_cell (fresh_notebook (initial_world (\<lambda>k. 2)))))))) (1, 0)
      = count_list (potential_similar_pairs (pair_cell_similar (threshold_cell (17/100)
        (simulation_result 3 [[3/5, 4/5, 0], [2/3, 2/3, 1/3], [- 3/5, - 4/5, 0]]
           (seed_cell (fresh_notebook (initial_world (\<lambda>k. 2)))))))) (0, 1)"
proof -
  let ?s = "simulation_result 3 [[3/5, 4/5, 0], [2/3, 2/3, 1/3], [- 3/5, - 4/5, 0]]
           (seed_cell (fresh_notebook (initial_world (\<lambda>k. 2))))"
  let ?ps = "potential_similar_pairs (pair_cell_similar (threshold_cell (17/100) ?s))"
  have t0: "(0::real) \<le> 17/100" by simp
  have ps: "?ps = [(0, 1), (1, 0), (0, 1), (0, 2), (1, 0), (1, 2), (2, 0), (2, 1), (0, 1), (1, 0)]"
    by code_simp
  note inst = similar_pairs_all_permutations [of "17/100" ?s]
  from inst have complete: "\<forall>p a b. p < length (normed ?s) \<and> a < length (normed ?s ! p)
          \<and> b < length (normed ?s ! p) \<and> a \<noteq> b \<and> (0::real) \<le> 17/100
          \<and> ((2 \<le> length (filter (\<lambda>x. 17/100 < x) (normed ?s ! p))
                \<and> 17/100 < normed ?s ! p ! a \<and> 17/100 < normed ?s ! p ! b)
             \<or> (2 \<le> length (filter (\<lambda>x. x < - (17/100)) (normed ?s ! p))
                \<and> normed ?s ! p ! a < - (17/100) \<and> normed ?s ! p ! b < - (17/100)))
        \<longrightarrow> (a, b) \<in> set ?ps"
    by blast
  have mem: "(1, 2) \<in> set ?ps"
    by (rule complete [rule_format, of 1 1 2]) (simp add: simulation_result_def)
  from inst have sym: "count_list ?ps (1, 0) = count_list ?ps (0, 1)"
    by blast
  from t0 ps mem sym show ?thesis by blast
qed

end
